theory Spec2Isabelle
  imports Complex_Main
begin

section \<open>Numbers, strings and array reads\<close>

text \<open>
  The program is TypeScript. A \<^verbatim>\<open>number\<close> that is only compared with integer constants
  (the guilt percentage) or added and divided (a task weight) is modelled as a \<^typ>\<open>real\<close>:
  comparisons of a finite double with the constants 0, 10, 25, 50, 75, 90 and 100 are exact,
  so the model agrees with the code on every finite input. The value NaN is outside the
  model. A string is the list of the UTF-8 bytes the source file holds between the quotes,
  so the emoji and the en dash of the messages are spelled as their bytes.

  Reading an array past its end yields \<^verbatim>\<open>undefined\<close> in JavaScript (the
  \<^verbatim>\<open>!\<close> of TypeScript is erased at compile time): \<open>js_index\<close> returns
  \<open>None\<close> there. Reading a property of \<^verbatim>\<open>undefined\<close> throws a TypeError.
\<close>

datatype error = TypeError

definition js_index :: "'a list \<Rightarrow> int \<Rightarrow> 'a option" where
  "js_index xs i = (if 0 \<le> i \<and> i < int (length xs) then Some (xs ! nat i) else None)"

section \<open>The message table and the presentation mapper (config/messages)\<close>

text \<open>
  Modelled from the spec: the declaration of the type \<^verbatim>\<open>MotivationalMessage\<close>, which
  the source imports from \<^verbatim>\<open>../types\<close>. A message range is a closed interval of guilt
  percentages with a fixed list of strings; the three fields are the ones every entry of
  the table sets and \<^verbatim>\<open>getMotivationalMessage\<close> reads.
\<close>

record MotivationalMessage =
  minGuilt :: real
  maxGuilt :: real
  messages :: "string list"

text \<open>The six message lists of the table, in declaration order.\<close>

definition messages_0_10 :: "string list" where
  "messages_0_10 =
    [[CHR 0xF0, CHR 0x9F, CHR 0x8E, CHR 0x89] @ '' You did it! Guilt-free and fabulous!'',
     [CHR 0xE2, CHR 0x9C, CHR 0xA8] @ '' Amazing work! You've lifted all the weight!'',
     [CHR 0xF0, CHR 0x9F, CHR 0x8F, CHR 0x86] @ '' Project complete! Go celebrate!'',
     [CHR 0xF0, CHR 0x9F, CHR 0x92, CHR 0xAA] @ '' Total victory! Time to rest and enjoy!'']"

definition messages_10_25 :: "string list" where
  "messages_10_25 =
    [[CHR 0xF0, CHR 0x9F, CHR 0x8C, CHR 0x9F] @ '' Nearly there! Just a few tasks left!'',
     [CHR 0xF0, CHR 0x9F, CHR 0x93, CHR 0x88] @ '' Incredible momentum! Keep it going!'',
     [CHR 0xF0, CHR 0x9F, CHR 0x9A, CHR 0x80] @ '' You're so close to the finish line!'',
     [CHR 0xE2, CHR 0x9C, CHR 0x85] @ '' Fantastic progress! Almost home!'']"

definition messages_25_50 :: "string list" where
  "messages_25_50 =
    [[CHR 0xF0, CHR 0x9F, CHR 0x92, CHR 0xA1] @ '' Great halfway point! You're crushing it!'',
     [CHR 0xF0, CHR 0x9F, CHR 0x8E, CHR 0xAF] @ '' Solid progress! Keep the pace!'',
     [CHR 0xF0, CHR 0x9F, CHR 0x8C, CHR 0xB1] @ '' You're building great momentum!'',
     [CHR 0xE2, CHR 0x9A, CHR 0xA1] @ '' Half the battle is done '' @ [CHR 0xE2, CHR 0x80, CHR 0x93] @ '' keep going!'']"

definition messages_50_75 :: "string list" where
  "messages_50_75 =
    [[CHR 0xF0, CHR 0x9F, CHR 0x93, CHR 0x8D] @ '' You've got the hard work started '' @ [CHR 0xE2, CHR 0x80, CHR 0x93] @ '' nice!'',
     [CHR 0xF0, CHR 0x9F, CHR 0x8C, CHR 0x8A] @ '' Getting there, one task at a time!'',
     [CHR 0xF0, CHR 0x9F, CHR 0x8E, CHR 0xAA] @ '' Progress is happening! Stay focused!'',
     [CHR 0xF0, CHR 0x9F, CHR 0x92, CHR 0xBC] @ '' Good start! Let's build on this!'']"

definition messages_75_90 :: "string list" where
  "messages_75_90 =
    [[CHR 0xF0, CHR 0x9F, CHR 0x91, CHR 0x8B] @ '' You've begun your journey '' @ [CHR 0xE2, CHR 0x80, CHR 0x93] @ '' that's the first step!'',
     [CHR 0xF0, CHR 0x9F, CHR 0x94, CHR 0xA7] @ '' Every task matters. You've got this!'',
     [CHR 0xF0, CHR 0x9F, CHR 0x8C, CHR 0x85] @ '' Just getting warmed up. One step at a time!'',
     [CHR 0xF0, CHR 0x9F, CHR 0x93, CHR 0x9A] @ '' Starting strong. Keep moving forward!'']"

definition messages_90_100 :: "string list" where
  "messages_90_100 =
    [[CHR 0xF0, CHR 0x9F, CHR 0x92, CHR 0xAD] @ '' Take a breath. You don't have to do it all today.'',
     [CHR 0xF0, CHR 0x9F, CHR 0xA4, CHR 0x9D] @ '' This is a marathon, not a sprint. Begin when ready!'',
     [CHR 0xF0, CHR 0x9F, CHR 0x8C, CHR 0xBF] @ '' Be gentle with yourself. Small steps count!'',
     [CHR 0xF0, CHR 0x9F, CHR 0x93, CHR 0x9D] @ '' Ready to get started? Pick one task!'']"

definition motivationalMessages :: "MotivationalMessage list" where
  "motivationalMessages =
    [\<lparr>minGuilt = 0, maxGuilt = 10, messages = messages_0_10\<rparr>,
     \<lparr>minGuilt = 10, maxGuilt = 25, messages = messages_10_25\<rparr>,
     \<lparr>minGuilt = 25, maxGuilt = 50, messages = messages_25_50\<rparr>,
     \<lparr>minGuilt = 50, maxGuilt = 75, messages = messages_50_75\<rparr>,
     \<lparr>minGuilt = 75, maxGuilt = 90, messages = messages_75_90\<rparr>,
     \<lparr>minGuilt = 90, maxGuilt = 100, messages = messages_90_100\<rparr>]"

text \<open>
  \<^verbatim>\<open>getMotivationalMessage\<close>. The predicate handed to \<^verbatim>\<open>find\<close> is \<open>in_range\<close>;
  \<^const>\<open>find\<close> returns the first element that satisfies it, as \<^verbatim>\<open>Array.prototype.find\<close>
  does. The outcome of \<^verbatim>\<open>Math.random()\<close> is the second argument, a number \<open>r\<close> with
  \<open>0 \<le> r < 1\<close>; the product with the list length is exact for a length of four (a
  power of two).
\<close>

definition in_range :: "real \<Rightarrow> MotivationalMessage \<Rightarrow> bool" where
  "in_range guiltPercentage msg \<longleftrightarrow>
     guiltPercentage \<ge> minGuilt msg \<and> guiltPercentage \<le> maxGuilt msg"

definition getMotivationalMessage :: "real \<Rightarrow> real \<Rightarrow> error + string option" where
  "getMotivationalMessage guiltPercentage random =
     (case find (in_range guiltPercentage) motivationalMessages of
        None \<Rightarrow>
          (case js_index motivationalMessages (int (length motivationalMessages) - 1) of
             None \<Rightarrow> Inl TypeError
           | Some lastRange \<Rightarrow> Inr (js_index (messages lastRange) 0))
      | Some range' \<Rightarrow>
          (let randomIndex = \<lfloor>random * real (length (messages range'))\<rfloor>
           in Inr (js_index (messages range') randomIndex)))"

text \<open>\<^verbatim>\<open>getGuiltMeterColor\<close>: the chain of early returns, in the order of the source.\<close>

definition getGuiltMeterColor :: "real \<Rightarrow> string" where
  "getGuiltMeterColor guiltPercentage =
     (if guiltPercentage \<ge> 100 then ''#a166d3''
      else if guiltPercentage \<le> 10 then ''#d9d9d9''
      else if guiltPercentage \<le> 25 then ''#98fb98''
      else if guiltPercentage \<le> 50 then ''#87ceeb''
      else if guiltPercentage \<le> 75 then ''#ffd700''
      else ''#ff69b4'')"

text \<open>
  The colour bands as the specification lists them: six bands tried in ascending order,
  the first one that holds wins. This definition follows the specification, not the
  code, and is compared with \<open>getGuiltMeterColor\<close> below.
\<close>

definition spec_colorBands :: "((real \<Rightarrow> bool) \<times> string) list" where
  "spec_colorBands =
    [(\<lambda>g. g \<le> 10, ''#d9d9d9''),
     (\<lambda>g. g \<le> 25, ''#98fb98''),
     (\<lambda>g. g \<le> 50, ''#87ceeb''),
     (\<lambda>g. g \<le> 75, ''#ffd700''),
     (\<lambda>g. g < 100, ''#ff69b4''),
     (\<lambda>g. g \<ge> 100, ''#a166d3'')]"

definition spec_guiltMeterColor :: "real \<Rightarrow> string option" where
  "spec_guiltMeterColor g = map_option snd (find (\<lambda>band. fst band g) spec_colorBands)"

section \<open>The progress calculator (lib/progress)\<close>

text \<open>
  The file \<^verbatim>\<open>lib/progress\<close> that defines \<^verbatim>\<open>calculateProgress\<close> is not among the
  source files; only its callers are (\<^verbatim>\<open>App.tsx\<close> and the project list, which read
  \<^verbatim>\<open>progressPercentage\<close> and \<^verbatim>\<open>guiltPercentage\<close> of its result). The types and the
  function are therefore written from the specification's contract of the progress
  calculator.
\<close>

text \<open>
  Modelled from the spec: the type \<^verbatim>\<open>Task\<close> of \<^verbatim>\<open>types\<close>, with the three fields the
  calculator consumes (identifier, weight, completion flag). The weight is a number the
  calculator does not validate, so any real is a weight.
\<close>

record Task =
  taskId :: string
  weight :: real
  completed :: bool

text \<open>
  Modelled from the spec: the type \<^verbatim>\<open>ProgressState\<close>, the four fields of the
  calculator's contract. The counts are naturals; the percentages are the integers
  rounding yields.
\<close>

record ProgressState =
  totalTasks :: nat
  completedTasks :: nat
  progressPercentage :: int
  guiltPercentage :: int

text \<open>
  Modelled from the spec: the two sums of the calculator, the weight of all tasks and the
  weight of the completed ones.
\<close>

definition totalWeight :: "Task list \<Rightarrow> real" where
  "totalWeight tasks = sum_list (map weight tasks)"

definition completedWeight :: "Task list \<Rightarrow> real" where
  "completedWeight tasks = sum_list (map weight (filter completed tasks))"

text \<open>
  Modelled from the spec: \<^verbatim>\<open>calculateProgress\<close> of \<^verbatim>\<open>lib/progress\<close>, after the contract
  of the progress calculator. The total is the number of tasks, the completed count the
  number of tasks whose flag is set, the progress
  \<open>round (100 * completed weight / total weight)\<close> with 0 for a total weight or task
  count of zero, and the guilt \<open>100 - progress\<close>. Rounding is \<^const>\<open>round\<close>,
  \<open>\<lfloor>x + 1/2\<rfloor>\<close>, which is \<^verbatim>\<open>Math.round\<close>.

  The specification's data model adds the words \<^emph>\<open>clamped to [0,100]\<close> to the guilt equation,
  while the contract and the error handling section (the guard against division by zero
  as the one defensive branch, weights not validated) state none. The two readings give
  the same values whenever no weight is negative, which covers the positive weights of
  the data model (\<open>clamp_unchanged\<close> below). For a list with a negative weight the
  specification does not settle what the calculator returns; this definition follows the
  contract there.
\<close>

definition calculateProgress :: "Task list \<Rightarrow> ProgressState" where
  "calculateProgress tasks =
     (let progress =
        (if totalWeight tasks = 0 \<or> length tasks = 0 then 0
         else round (100 * completedWeight tasks / totalWeight tasks))
      in \<lparr>totalTasks = length tasks,
          completedTasks = length (filter completed tasks),
          progressPercentage = progress,
          guiltPercentage = 100 - progress\<rparr>)"

section \<open>Facts about the table\<close>

lemmas message_lists =
  messages_0_10_def messages_10_25_def messages_25_50_def
  messages_50_75_def messages_75_90_def messages_90_100_def

text \<open>Which range \<^verbatim>\<open>find\<close> returns, by the position of the guilt percentage.\<close>

lemma find_in_range:
  "find (in_range g) motivationalMessages =
    (if 0 \<le> g \<and> g \<le> 10 then Some \<lparr>minGuilt = 0, maxGuilt = 10, messages = messages_0_10\<rparr>
     else if 10 \<le> g \<and> g \<le> 25 then Some \<lparr>minGuilt = 10, maxGuilt = 25, messages = messages_10_25\<rparr>
     else if 25 \<le> g \<and> g \<le> 50 then Some \<lparr>minGuilt = 25, maxGuilt = 50, messages = messages_25_50\<rparr>
     else if 50 \<le> g \<and> g \<le> 75 then Some \<lparr>minGuilt = 50, maxGuilt = 75, messages = messages_50_75\<rparr>
     else if 75 \<le> g \<and> g \<le> 90 then Some \<lparr>minGuilt = 75, maxGuilt = 90, messages = messages_75_90\<rparr>
     else if 90 \<le> g \<and> g \<le> 100 then Some \<lparr>minGuilt = 90, maxGuilt = 100, messages = messages_90_100\<rparr>
     else None)"
  by (simp add: motivationalMessages_def in_range_def)

lemma find_None_outside: "find (in_range g) motivationalMessages = None \<longleftrightarrow> g < 0 \<or> 100 < g"
  by (auto simp: find_in_range)

lemma four_messages: "rg \<in> set motivationalMessages \<Longrightarrow> length (messages rg) = 4"
  by (auto simp: motivationalMessages_def message_lists)

lemma messages_distinct: "distinct (concat (map messages motivationalMessages))"
  by (simp add: motivationalMessages_def message_lists)

lemma table_size: "length (concat (map messages motivationalMessages)) = 24"
  by (simp add: motivationalMessages_def message_lists)

text \<open>
  \<^verbatim>\<open>find\<close> is the head of the matching entries in declaration order: when several
  ranges hold the value, the earliest declared one is returned.
\<close>

lemma find_is_first_of_filter:
  "find P xs = (case filter P xs of [] \<Rightarrow> None | x # _ \<Rightarrow> Some x)"
  by (induction xs) simp_all

text \<open>Two different entries of the table share no message.\<close>

lemma filter_later_disjoint:
  assumes "distinct (concat (map f xs))" and "filter P xs = a # rest" and "b \<in> set rest"
  shows "set (f a) \<inter> set (f b) = {}"
  using assms
proof (induction xs arbitrary: a rest)
  case Nil
  then show ?case by simp
next
  case (Cons x xs)
  show ?case
  proof (cases "P x")
    case True
    with Cons.prems have "a = x" and "b \<in> set xs" by auto
    with Cons.prems(1) show ?thesis by auto
  next
    case False
    with Cons.prems have "filter P xs = a # rest" by simp
    moreover from Cons.prems(1) have "distinct (concat (map f xs))" by simp
    ultimately show ?thesis using Cons.IH Cons.prems(3) by blast
  qed
qed

lemma ranges_disjoint:
  assumes "filter P motivationalMessages = a # rest" and "b \<in> set rest"
  shows "set (messages a) \<inter> set (messages b) = {}"
  using messages_distinct assms by (rule filter_later_disjoint)

text \<open>
  The random index: the floor of a product of a number in \<open>[0, 1)\<close> with a positive
  length is a valid position.
\<close>

lemma random_index_bounds:
  assumes "0 \<le> r" and "r < 1" and "0 < n"
  shows "0 \<le> \<lfloor>r * real n\<rfloor>" and "\<lfloor>r * real n\<rfloor> < int n"
proof -
  show "0 \<le> \<lfloor>r * real n\<rfloor>" using assms by simp
  have "r * real n < real n" using assms by simp
  then show "\<lfloor>r * real n\<rfloor> < int n" by (simp add: floor_less_iff)
qed

text \<open>The two branches of \<open>getMotivationalMessage\<close>.\<close>

lemma message_of_found_range:
  assumes f: "find (in_range g) motivationalMessages = Some rg" and r: "0 \<le> r" "r < 1"
  shows "getMotivationalMessage g r = Inr (Some (messages rg ! nat \<lfloor>r * 4\<rfloor>))"
    and "nat \<lfloor>r * 4\<rfloor> < length (messages rg)"
proof -
  from f have "rg \<in> set motivationalMessages"
    by (auto simp: find_Some_iff)
  then have len: "length (messages rg) = 4" by (rule four_messages)
  have lo: "0 \<le> \<lfloor>r * 4\<rfloor>"
    using random_index_bounds(1) [OF r, of 4] by simp
  have hi: "\<lfloor>r * 4\<rfloor> < 4"
    using random_index_bounds(2) [OF r, of 4] by simp
  show "getMotivationalMessage g r = Inr (Some (messages rg ! nat \<lfloor>r * 4\<rfloor>))"
    using f len lo hi by (simp add: getMotivationalMessage_def js_index_def)
  from lo hi have "nat \<lfloor>r * 4\<rfloor> < 4" by linarith
  then show "nat \<lfloor>r * 4\<rfloor> < length (messages rg)" using len by simp
qed

lemma message_of_no_range:
  assumes "find (in_range g) motivationalMessages = None"
  shows "getMotivationalMessage g r = Inr (Some (messages_90_100 ! 0))"
  using assms
  by (simp add: getMotivationalMessage_def js_index_def motivationalMessages_def messages_90_100_def)

section \<open>The guilt meter colour\<close>

text \<open>
  C2. For every guilt percentage, \<open>getGuiltMeterColor\<close> returns the colour of the first
  band that holds when the six bands \<open>\<le> 10\<close>, \<open>\<le> 25\<close>, \<open>\<le> 50\<close>, \<open>\<le> 75\<close>, \<open>< 100\<close>,
  \<open>\<ge> 100\<close> are tried in ascending order; at 10 it returns the soft silver
  \<open>#d9d9d9\<close>, which is not the pastel mint \<open>#98fb98\<close>.
\<close>

theorem getGuiltMeterColor_first_band:
  "spec_guiltMeterColor g = Some (getGuiltMeterColor g)
   \<and> getGuiltMeterColor 10 = ''#d9d9d9''
   \<and> getGuiltMeterColor 10 \<noteq> ''#98fb98''"
  by (simp add: spec_guiltMeterColor_def spec_colorBands_def getGuiltMeterColor_def)

text \<open>
  C10. \<open>getGuiltMeterColor\<close> returns a colour for every real input, also outside
  \<open>[0, 100]\<close>: the colours it returns are exactly the six constants \<open>#a166d3\<close>,
  \<open>#d9d9d9\<close>, \<open>#98fb98\<close>, \<open>#87ceeb\<close>, \<open>#ffd700\<close> and \<open>#ff69b4\<close>, and every negative
  input gets the soft silver \<open>#d9d9d9\<close>.
\<close>

theorem getGuiltMeterColor_six_colors:
  "range getGuiltMeterColor =
     {''#a166d3'', ''#d9d9d9'', ''#98fb98'', ''#87ceeb'', ''#ffd700'', ''#ff69b4''}
   \<and> (\<forall>g. g < 0 \<longrightarrow> getGuiltMeterColor g = ''#d9d9d9'')"
proof (intro conjI allI impI)
  show "range getGuiltMeterColor =
     {''#a166d3'', ''#d9d9d9'', ''#98fb98'', ''#87ceeb'', ''#ffd700'', ''#ff69b4''}"
  proof
    show "range getGuiltMeterColor
      \<subseteq> {''#a166d3'', ''#d9d9d9'', ''#98fb98'', ''#87ceeb'', ''#ffd700'', ''#ff69b4''}"
      by (auto simp: getGuiltMeterColor_def)
    have "getGuiltMeterColor 100 = ''#a166d3''" "getGuiltMeterColor 0 = ''#d9d9d9''"
      "getGuiltMeterColor 20 = ''#98fb98''" "getGuiltMeterColor 40 = ''#87ceeb''"
      "getGuiltMeterColor 60 = ''#ffd700''" "getGuiltMeterColor 80 = ''#ff69b4''"
      by (simp_all add: getGuiltMeterColor_def)
    then show "{''#a166d3'', ''#d9d9d9'', ''#98fb98'', ''#87ceeb'', ''#ffd700'', ''#ff69b4''}
      \<subseteq> range getGuiltMeterColor"
      by (metis empty_subsetI insert_subset rangeI)
  qed
next
  fix g :: real
  assume "g < 0"
  then show "getGuiltMeterColor g = ''#d9d9d9''"
    by (simp add: getGuiltMeterColor_def)
qed

theorem getGuiltMeterColor_six_colors_witness:
  "(-5::real) < 0 \<and> getGuiltMeterColor (-5) = ''#d9d9d9''
   \<and> getGuiltMeterColor 250 \<in>
     {''#a166d3'', ''#d9d9d9'', ''#98fb98'', ''#87ceeb'', ''#ffd700'', ''#ff69b4''}"
proof -
  have neg: "(-5::real) < 0" by simp
  from getGuiltMeterColor_six_colors have "getGuiltMeterColor (-5) = ''#d9d9d9''"
    using neg by blast
  moreover from getGuiltMeterColor_six_colors have "getGuiltMeterColor 250 \<in>
     {''#a166d3'', ''#d9d9d9'', ''#98fb98'', ''#87ceeb'', ''#ffd700'', ''#ff69b4''}"
    using rangeI [of getGuiltMeterColor 250] by simp
  ultimately show ?thesis using neg by simp
qed

section \<open>The motivational message\<close>

text \<open>
  C4. A guilt percentage on one of the shared range edges 10, 25, 50, 75, 90 lies in
  exactly two ranges of the table, and \<open>getMotivationalMessage\<close> answers from the one
  declared first: its result is a message of that range and of no later one. At 10 the
  two ranges are 0-10 and 10-25, and the result is one of the four messages of 0-10.
\<close>

theorem getMotivationalMessage_first_range_wins:
  assumes "0 \<le> r" and "r < 1"
  shows "(\<forall>g \<in> {10, 25, 50, 75, 90}. \<exists>first second s.
            filter (in_range g) motivationalMessages = [first, second]
            \<and> getMotivationalMessage g r = Inr (Some s)
            \<and> s \<in> set (messages first) \<and> s \<notin> set (messages second))
         \<and> filter (in_range 10) motivationalMessages =
             [\<lparr>minGuilt = 0, maxGuilt = 10, messages = messages_0_10\<rparr>,
              \<lparr>minGuilt = 10, maxGuilt = 25, messages = messages_10_25\<rparr>]
         \<and> (\<exists>s. getMotivationalMessage 10 r = Inr (Some s)
              \<and> s \<in> set messages_0_10 \<and> s \<notin> set messages_10_25)"
proof -
  have edge: "\<exists>s. getMotivationalMessage g r = Inr (Some s)
                \<and> s \<in> set (messages a) \<and> s \<notin> set (messages b)"
    if two: "filter (in_range g) motivationalMessages = [a, b]" for g a b
  proof -
    from two have f: "find (in_range g) motivationalMessages = Some a"
      by (simp add: find_is_first_of_filter)
    let ?s = "messages a ! nat \<lfloor>r * 4\<rfloor>"
    from message_of_found_range [OF f assms]
    have res: "getMotivationalMessage g r = Inr (Some ?s)" and "?s \<in> set (messages a)"
      by simp_all
    moreover from two have "set (messages a) \<inter> set (messages b) = {}"
      by (intro ranges_disjoint [where rest = "[b]"]) simp_all
    ultimately show ?thesis by blast
  qed
  have f10: "filter (in_range 10) motivationalMessages =
             [\<lparr>minGuilt = 0, maxGuilt = 10, messages = messages_0_10\<rparr>,
              \<lparr>minGuilt = 10, maxGuilt = 25, messages = messages_10_25\<rparr>]"
    and f25: "filter (in_range 25) motivationalMessages =
             [\<lparr>minGuilt = 10, maxGuilt = 25, messages = messages_10_25\<rparr>,
              \<lparr>minGuilt = 25, maxGuilt = 50, messages = messages_25_50\<rparr>]"
    and f50: "filter (in_range 50) motivationalMessages =
             [\<lparr>minGuilt = 25, maxGuilt = 50, messages = messages_25_50\<rparr>,
              \<lparr>minGuilt = 50, maxGuilt = 75, messages = messages_50_75\<rparr>]"
    and f75: "filter (in_range 75) motivationalMessages =
             [\<lparr>minGuilt = 50, maxGuilt = 75, messages = messages_50_75\<rparr>,
              \<lparr>minGuilt = 75, maxGuilt = 90, messages = messages_75_90\<rparr>]"
    and f90: "filter (in_range 90) motivationalMessages =
             [\<lparr>minGuilt = 75, maxGuilt = 90, messages = messages_75_90\<rparr>,
              \<lparr>minGuilt = 90, maxGuilt = 100, messages = messages_90_100\<rparr>]"
    by (simp_all add: motivationalMessages_def in_range_def)
  have all_edges: "\<forall>g \<in> {10, 25, 50, 75, 90}. \<exists>first second s.
            filter (in_range g) motivationalMessages = [first, second]
            \<and> getMotivationalMessage g r = Inr (Some s)
            \<and> s \<in> set (messages first) \<and> s \<notin> set (messages second)"
    using edge [OF f10] edge [OF f25] edge [OF f50] edge [OF f75] edge [OF f90]
      f10 f25 f50 f75 f90
    by blast
  from edge [OF f10] have "\<exists>s. getMotivationalMessage 10 r = Inr (Some s)
              \<and> s \<in> set messages_0_10 \<and> s \<notin> set messages_10_25"
    by simp
  with all_edges f10 show ?thesis by blast
qed

theorem getMotivationalMessage_first_range_wins_witness:
  "(0::real) \<le> 1 / 2 \<and> (1 / 2 :: real) < 1
   \<and> (\<exists>s. getMotivationalMessage 10 (1 / 2) = Inr (Some s)
        \<and> s \<in> set messages_0_10 \<and> s \<notin> set messages_10_25)"
proof -
  have r: "(0::real) \<le> 1 / 2" "(1 / 2 :: real) < 1" by simp_all
  from getMotivationalMessage_first_range_wins [OF r] r show ?thesis by blast
qed

text \<open>
  C6. At a guilt percentage of 0, whatever number in \<open>[0, 1)\<close> the random source
  yields, \<open>getMotivationalMessage\<close> returns one of the four strings of the 0-10 range:
  the one at position \<open>\<lfloor>4 r\<rfloor>\<close>.
\<close>

theorem getMotivationalMessage_zero_guilt:
  assumes "0 \<le> r" and "r < 1"
  shows "getMotivationalMessage 0 r = Inr (Some (messages_0_10 ! nat \<lfloor>r * 4\<rfloor>))
         \<and> nat \<lfloor>r * 4\<rfloor> < length messages_0_10
         \<and> (\<exists>s. getMotivationalMessage 0 r = Inr (Some s) \<and> s \<in> set messages_0_10)
         \<and> length messages_0_10 = 4"
proof -
  have f: "find (in_range 0) motivationalMessages =
      Some \<lparr>minGuilt = 0, maxGuilt = 10, messages = messages_0_10\<rparr>"
    by (simp add: find_in_range)
  from message_of_found_range [OF f assms]
  have res: "getMotivationalMessage 0 r = Inr (Some (messages_0_10 ! nat \<lfloor>r * 4\<rfloor>))"
    and idx: "nat \<lfloor>r * 4\<rfloor> < length messages_0_10"
    by simp_all
  from idx have "messages_0_10 ! nat \<lfloor>r * 4\<rfloor> \<in> set messages_0_10" by (rule nth_mem)
  moreover have "length messages_0_10 = 4" by (simp add: messages_0_10_def)
  ultimately show ?thesis using res idx by blast
qed

theorem getMotivationalMessage_zero_guilt_witness:
  "(0::real) \<le> 3 / 10 \<and> (3 / 10 :: real) < 1
   \<and> getMotivationalMessage 0 (3 / 10) =
       Inr (Some ([CHR 0xE2, CHR 0x9C, CHR 0xA8] @ '' Amazing work! You've lifted all the weight!''))"
proof -
  have r: "(0::real) \<le> 3 / 10" "(3 / 10 :: real) < 1" by simp_all
  have "nat \<lfloor>3 / 10 * 4 :: real\<rfloor> = 1" by simp
  with getMotivationalMessage_zero_guilt [OF r] r show ?thesis
    by (simp add: messages_0_10_def)
qed

text \<open>
  C7. When no range of the table holds the guilt percentage, \<open>getMotivationalMessage\<close>
  returns the first message of the last range (90-100), whatever the random source
  yields. No range matches exactly when the value is below 0 or above 100, so for a
  guilt percentage in \<open>[0, 100]\<close> a range is always found and the fallback is not taken:
  the result there is the read of the found range's list at the random index.
\<close>

theorem getMotivationalMessage_fallback:
  "(find (in_range g) motivationalMessages = None \<longrightarrow>
      getMotivationalMessage g r =
        Inr (Some ([CHR 0xF0, CHR 0x9F, CHR 0x92, CHR 0xAD] @
          '' Take a breath. You don't have to do it all today.'')))
   \<and> messages (last motivationalMessages) ! 0 =
        [CHR 0xF0, CHR 0x9F, CHR 0x92, CHR 0xAD] @
          '' Take a breath. You don't have to do it all today.''
   \<and> (find (in_range g) motivationalMessages = None \<longleftrightarrow> g < 0 \<or> 100 < g)
   \<and> (0 \<le> g \<and> g \<le> 100 \<longrightarrow> find (in_range g) motivationalMessages \<noteq> None)
   \<and> (0 \<le> g \<and> g \<le> 100 \<longrightarrow>
        (\<exists>rg. find (in_range g) motivationalMessages = Some rg
          \<and> in_range g rg
          \<and> getMotivationalMessage g r =
              Inr (js_index (messages rg) \<lfloor>r * real (length (messages rg))\<rfloor>)))"
proof (intro conjI impI)
  assume "find (in_range g) motivationalMessages = None"
  then have "getMotivationalMessage g r = Inr (Some (messages_90_100 ! 0))"
    by (rule message_of_no_range)
  then show "getMotivationalMessage g r =
        Inr (Some ([CHR 0xF0, CHR 0x9F, CHR 0x92, CHR 0xAD] @
          '' Take a breath. You don't have to do it all today.''))"
    by (simp add: messages_90_100_def)
next
  show "messages (last motivationalMessages) ! 0 =
        [CHR 0xF0, CHR 0x9F, CHR 0x92, CHR 0xAD] @
          '' Take a breath. You don't have to do it all today.''"
    by (simp add: motivationalMessages_def messages_90_100_def)
next
  show "find (in_range g) motivationalMessages = None \<longleftrightarrow> g < 0 \<or> 100 < g"
    by (rule find_None_outside)
next
  assume "0 \<le> g \<and> g \<le> 100"
  then show "find (in_range g) motivationalMessages \<noteq> None"
    by (simp add: find_None_outside)
next
  assume "0 \<le> g \<and> g \<le> 100"
  then have "find (in_range g) motivationalMessages \<noteq> None"
    by (simp add: find_None_outside)
  then obtain rg where found: "find (in_range g) motivationalMessages = Some rg"
    by blast
  then have holds: "in_range g rg"
    by (auto simp: find_Some_iff)
  from found have "getMotivationalMessage g r =
      Inr (js_index (messages rg) \<lfloor>r * real (length (messages rg))\<rfloor>)"
    by (simp add: getMotivationalMessage_def)
  with found holds
  show "\<exists>rg. find (in_range g) motivationalMessages = Some rg
          \<and> in_range g rg
          \<and> getMotivationalMessage g r =
              Inr (js_index (messages rg) \<lfloor>r * real (length (messages rg))\<rfloor>)"
    by blast
qed

theorem getMotivationalMessage_fallback_witness:
  "find (in_range 101) motivationalMessages = None
   \<and> getMotivationalMessage 101 (7 / 10) =
        Inr (Some ([CHR 0xF0, CHR 0x9F, CHR 0x92, CHR 0xAD] @
          '' Take a breath. You don't have to do it all today.''))
   \<and> (0::real) \<le> 50 \<and> (50::real) \<le> 100
   \<and> find (in_range 50) motivationalMessages \<noteq> None
   \<and> getMotivationalMessage 50 (1 / 2) =
        Inr (Some ([CHR 0xF0, CHR 0x9F, CHR 0x8C, CHR 0xB1] @
          '' You're building great momentum!''))
   \<and> getMotivationalMessage 50 (1 / 2) \<noteq>
        Inr (Some ([CHR 0xF0, CHR 0x9F, CHR 0x92, CHR 0xAD] @
          '' Take a breath. You don't have to do it all today.''))"
proof -
  have none: "find (in_range 101) motivationalMessages = None"
    by (simp add: find_in_range)
  have inside: "(0::real) \<le> 50 \<and> (50::real) \<le> 100" by simp
  from getMotivationalMessage_fallback [of 101 "7 / 10"] none
  have far: "getMotivationalMessage 101 (7 / 10) =
        Inr (Some ([CHR 0xF0, CHR 0x9F, CHR 0x92, CHR 0xAD] @
          '' Take a breath. You don't have to do it all today.''))"
    by blast
  from getMotivationalMessage_fallback [of 50 0] inside
  have some: "find (in_range 50) motivationalMessages \<noteq> None"
    by blast
  from getMotivationalMessage_fallback [of 50 "1 / 2"] inside
  obtain rg where found: "find (in_range 50) motivationalMessages = Some rg"
    and res: "getMotivationalMessage 50 (1 / 2) =
      Inr (js_index (messages rg) \<lfloor>1 / 2 * real (length (messages rg))\<rfloor>)"
    by blast
  from found have rg: "rg = \<lparr>minGuilt = 25, maxGuilt = 50, messages = messages_25_50\<rparr>"
    by (simp add: find_in_range)
  have mid: "getMotivationalMessage 50 (1 / 2) =
        Inr (Some ([CHR 0xF0, CHR 0x9F, CHR 0x8C, CHR 0xB1] @
          '' You're building great momentum!''))"
    unfolding res rg by (simp add: js_index_def messages_25_50_def)
  then have "getMotivationalMessage 50 (1 / 2) \<noteq>
        Inr (Some ([CHR 0xF0, CHR 0x9F, CHR 0x92, CHR 0xAD] @
          '' Take a breath. You don't have to do it all today.''))"
    by simp
  with none far inside some mid show ?thesis by blast
qed

text \<open>
  C9. \<open>getMotivationalMessage\<close> never throws and never returns \<^verbatim>\<open>undefined\<close>: for every
  real guilt percentage and every number in \<open>[0, 1)\<close> from the random source it returns
  a string of the table, which holds 24 different strings. The read is in bounds because every
  range holds four messages and the random index lies from 0 up to, and not including,
  that length.
\<close>

theorem getMotivationalMessage_total:
  assumes "0 \<le> r" and "r < 1"
  shows "(\<exists>s. getMotivationalMessage g r = Inr (Some s)
            \<and> s \<in> set (concat (map messages motivationalMessages)))
         \<and> length (concat (map messages motivationalMessages)) = 24
         \<and> distinct (concat (map messages motivationalMessages))
         \<and> (\<forall>rg \<in> set motivationalMessages.
               length (messages rg) = 4
               \<and> 0 \<le> \<lfloor>r * real (length (messages rg))\<rfloor>
               \<and> \<lfloor>r * real (length (messages rg))\<rfloor> < int (length (messages rg)))"
proof (intro conjI ballI)
  show "\<exists>s. getMotivationalMessage g r = Inr (Some s)
            \<and> s \<in> set (concat (map messages motivationalMessages))"
  proof (cases "find (in_range g) motivationalMessages")
    case None
    then have "getMotivationalMessage g r = Inr (Some (messages_90_100 ! 0))"
      by (rule message_of_no_range)
    moreover have "messages_90_100 ! 0 \<in> set (concat (map messages motivationalMessages))"
      by (simp add: motivationalMessages_def messages_90_100_def)
    ultimately show ?thesis by blast
  next
    case (Some rg)
    then have mem: "rg \<in> set motivationalMessages" by (auto simp: find_Some_iff)
    from message_of_found_range [OF Some assms]
    have "getMotivationalMessage g r = Inr (Some (messages rg ! nat \<lfloor>r * 4\<rfloor>))"
      and "messages rg ! nat \<lfloor>r * 4\<rfloor> \<in> set (messages rg)"
      by simp_all
    with mem show ?thesis by auto
  qed
next
  show "length (concat (map messages motivationalMessages)) = 24"
    by (rule table_size)
next
  show "distinct (concat (map messages motivationalMessages))"
    by (rule messages_distinct)
next
  fix rg assume "rg \<in> set motivationalMessages"
  then show "length (messages rg) = 4" by (rule four_messages)
  then have "0 < length (messages rg)" by simp
  from random_index_bounds [OF assms this]
  show "0 \<le> \<lfloor>r * real (length (messages rg))\<rfloor>"
    and "\<lfloor>r * real (length (messages rg))\<rfloor> < int (length (messages rg))" .
qed

theorem getMotivationalMessage_total_witness:
  "(0::real) \<le> 99 / 100 \<and> (99 / 100 :: real) < 1
   \<and> getMotivationalMessage (-3) (99 / 100) \<in>
        (\<lambda>s. Inr (Some s)) ` set (concat (map messages motivationalMessages))
   \<and> getMotivationalMessage 62 (99 / 100) =
        Inr (Some ([CHR 0xF0, CHR 0x9F, CHR 0x92, CHR 0xBC] @ '' Good start! Let's build on this!''))"
proof -
  have r: "(0::real) \<le> 99 / 100" "(99 / 100 :: real) < 1" by simp_all
  from getMotivationalMessage_total [OF r, of "-3"]
  have "getMotivationalMessage (-3) (99 / 100) \<in>
        (\<lambda>s. Inr (Some s)) ` set (concat (map messages motivationalMessages))"
    by blast
  moreover have "getMotivationalMessage 62 (99 / 100) =
        Inr (Some ([CHR 0xF0, CHR 0x9F, CHR 0x92, CHR 0xBC] @ '' Good start! Let's build on this!''))"
    by (simp add: getMotivationalMessage_def find_in_range js_index_def messages_50_75_def)
  ultimately show ?thesis using r by blast
qed

section \<open>The progress calculator\<close>

text \<open>The completed weight of non-negative weights lies between 0 and the total weight.\<close>

lemma completedWeight_bounds:
  assumes "\<forall>t \<in> set tasks. 0 \<le> weight t"
  shows "0 \<le> completedWeight tasks" and "completedWeight tasks \<le> totalWeight tasks"
proof -
  show "0 \<le> completedWeight tasks"
    unfolding completedWeight_def using assms by (intro sum_list_nonneg) auto
  show "completedWeight tasks \<le> totalWeight tasks"
    unfolding completedWeight_def totalWeight_def using assms
    by (induction tasks) (auto intro: add_increasing)
qed

lemma progress_bounds:
  assumes "\<forall>t \<in> set tasks. 0 \<le> weight t"
  shows "0 \<le> progressPercentage (calculateProgress tasks)"
    and "progressPercentage (calculateProgress tasks) \<le> 100"
proof -
  let ?c = "completedWeight tasks" and ?t = "totalWeight tasks"
  from completedWeight_bounds [OF assms] have c: "0 \<le> ?c" "?c \<le> ?t" .
  have "0 \<le> round (100 * ?c / ?t) \<and> round (100 * ?c / ?t) \<le> 100" if "?t \<noteq> 0"
  proof -
    from c that have pos: "0 < ?t" by simp
    with c have "0 \<le> 100 * ?c / ?t" by simp
    then have "round (0::real) \<le> round (100 * ?c / ?t)" by (rule round_mono)
    moreover from c pos have "100 * ?c / ?t \<le> 100" by (simp add: pos_divide_le_eq)
    then have "round (100 * ?c / ?t) \<le> round (100::real)" by (rule round_mono)
    ultimately show ?thesis by simp
  qed
  then show "0 \<le> progressPercentage (calculateProgress tasks)"
    and "progressPercentage (calculateProgress tasks) \<le> 100"
    by (simp_all add: calculateProgress_def Let_def)
qed

text \<open>
  For weights that are not negative, clamping either percentage to \<open>[0, 100]\<close> changes
  nothing: there the model gives the values of a calculator that clamps.
\<close>

lemma clamp_unchanged:
  assumes "\<forall>t \<in> set tasks. 0 \<le> weight t"
  shows "max 0 (min 100 (progressPercentage (calculateProgress tasks))) =
           progressPercentage (calculateProgress tasks)"
    and "max 0 (min 100 (guiltPercentage (calculateProgress tasks))) =
           guiltPercentage (calculateProgress tasks)"
proof -
  from progress_bounds [OF assms]
  have lo: "0 \<le> progressPercentage (calculateProgress tasks)"
    and hi: "progressPercentage (calculateProgress tasks) \<le> 100" .
  then show "max 0 (min 100 (progressPercentage (calculateProgress tasks))) =
           progressPercentage (calculateProgress tasks)"
    by simp
  have "guiltPercentage (calculateProgress tasks) =
      100 - progressPercentage (calculateProgress tasks)"
    by (simp add: calculateProgress_def Let_def)
  with lo hi show "max 0 (min 100 (guiltPercentage (calculateProgress tasks))) =
           guiltPercentage (calculateProgress tasks)"
    by simp
qed

text \<open>
  C1. The progress percentage is \<open>round (100 * completed weight / total weight)\<close>, and
  0 when the total weight or the number of tasks is zero. For two tasks of weights 1 and
  3 of which only the second is complete, the progress is 75 and the guilt 25.
\<close>

theorem calculateProgress_weighted:
  "progressPercentage (calculateProgress tasks) =
     (if sum_list (map weight tasks) = 0 \<or> length tasks = 0 then 0
      else round (100 * sum_list (map weight (filter completed tasks))
                   / sum_list (map weight tasks)))
   \<and> progressPercentage (calculateProgress
         [\<lparr>taskId = a, weight = 1, completed = False\<rparr>,
          \<lparr>taskId = b, weight = 3, completed = True\<rparr>]) = 75
   \<and> guiltPercentage (calculateProgress
         [\<lparr>taskId = a, weight = 1, completed = False\<rparr>,
          \<lparr>taskId = b, weight = 3, completed = True\<rparr>]) = 25"
proof (intro conjI)
  show "progressPercentage (calculateProgress tasks) =
     (if sum_list (map weight tasks) = 0 \<or> length tasks = 0 then 0
      else round (100 * sum_list (map weight (filter completed tasks))
                   / sum_list (map weight tasks)))"
    by (simp add: calculateProgress_def Let_def totalWeight_def completedWeight_def)
qed (simp_all add: calculateProgress_def totalWeight_def completedWeight_def round_def)

text \<open>
  C5. For the empty task list the calculator returns no tasks, none completed, a
  progress of 0 and a guilt of 100.
\<close>

theorem calculateProgress_empty:
  "calculateProgress [] =
     \<lparr>totalTasks = 0, completedTasks = 0, progressPercentage = 0, guiltPercentage = 100\<rparr>"
  by (simp add: calculateProgress_def totalWeight_def)

end
